theory Spec2Isabelle
  imports Main "HOL-Library.Word"
begin

section \<open>Go values\<close>

text \<open>
  The operator of \<^verbatim>\<open>pkg/sql/colfetcher/colbatch_scan.go\<close> is embedded function by
  function. Go's \<^verbatim>\<open>int64\<close>, \<^verbatim>\<open>uint64\<close>, \<^verbatim>\<open>uint32\<close> and \<^verbatim>\<open>int32\<close> are words of that
  width (additions wrap); Go's \<^verbatim>\<open>int\<close> is the 64-bit one. The row and byte limit
  types of package rowinfra are declared outside the file; they are taken to be
  64-bit integers, so that a conversion from \<^verbatim>\<open>int64\<close> keeps the bits.
\<close>

type_synonym int64 = "64 word"
type_synonym uint64 = "64 word"
type_synonym uint32 = "32 word"
type_synonym NodeID = "32 word"

text \<open>
  An \<^verbatim>\<open>error\<close> value is built by \<^verbatim>\<open>errors.Errorf\<close>, by \<^verbatim>\<open>errors.AssertionFailedf\<close>
  (the assertion class), or comes back from a collaborator of the operator.
\<close>

datatype error =
    Errorf string
  | AssertionFailedf string
  | ExternalError string

text \<open>
  \<^verbatim>\<open>colexecerror.InternalError(err)\<close> does not return: it panics with the error, and the
  vectorized engine catches the panic at the root of the flow. The two other panics are
  those of the Go runtime that the code of the file can reach.
\<close>

datatype panic =
    InternalError error
  | IndexOutOfRange
  | NilPointerDereference

datatype 'a outcome =
    Returned 'a
  | Panicked panic

text \<open>Opaque handles are compared by identity only.\<close>

type_synonym ctx = nat
type_synonym tracing_span = nat
type_synonym txn = nat
type_synonym T = nat

subsection \<open>Slices\<close>

text \<open>
  A slice is a window of length \<open>len\<close> on a backing array \<open>arr\<close>; the capacity is the
  length of the array, and Go keeps the window within it. The cells from \<open>len\<close> to the
  capacity are not visible through the slice, but they are still held by it, which is what
  the pooled objects of the file care about. The nil slice has no array.
\<close>

record 'a slice =
  arr :: "'a list"
  len :: nat

definition cap :: "'a slice \<Rightarrow> nat" where
  "cap s = length (arr s)"

definition elems :: "'a slice \<Rightarrow> 'a list" where
  "elems s = take (len s) (arr s)"

definition nil_slice :: "'a slice" where
  "nil_slice = \<lparr>arr = [], len = 0\<rparr>"

text \<open>\<^verbatim>\<open>s[:n]\<close> for \<open>n\<close> within the capacity, and \<^verbatim>\<open>make([]T, n)\<close> with zero value \<open>z\<close>.\<close>

definition reslice :: "'a slice \<Rightarrow> nat \<Rightarrow> 'a slice" where
  "reslice s n = s\<lparr>len := n\<rparr>"

definition make_slice :: "'a \<Rightarrow> nat \<Rightarrow> 'a slice" where
  "make_slice z n = \<lparr>arr = replicate n z, len = n\<rparr>"

text \<open>
  \<^verbatim>\<open>append(s, xs...)\<close>: within the capacity the cells after the window are overwritten in
  place; otherwise a new array is allocated, at least as long as needed, whose length is
  chosen by the runtime (\<open>grow\<close>, given the old capacity and the needed length) and whose
  spare cells hold the zero value \<open>z\<close>.
\<close>

definition appendN :: "(nat \<Rightarrow> nat \<Rightarrow> nat) \<Rightarrow> 'a \<Rightarrow> 'a slice \<Rightarrow> 'a list \<Rightarrow> 'a slice" where
  "appendN grow z s xs =
     (let n = len s + length xs in
      if n \<le> cap s
      then \<lparr>arr = take (len s) (arr s) @ xs @ drop n (arr s), len = n\<rparr>
      else \<lparr>arr = take (len s) (arr s) @ xs @ replicate (max n (grow (cap s) n) - n) z,
            len = n\<rparr>)"

subsection \<open>Data of the collaborators\<close>

text \<open>
  Modelled from the spec: \<^verbatim>\<open>roachpb.Span\<close> is declared outside the file; the glossary
  describes it as a contiguous key range \<open>[start, end)\<close>. Its zero value has two empty keys.
\<close>

record Span =
  Key :: string
  EndKey :: string

definition zero_Span :: Span where
  "zero_Span = \<lparr>Key = [], EndKey = []\<rparr>"

record TableReaderSpan =
  Span :: Span

text \<open>
  A \<^verbatim>\<open>catalog.Column\<close> is an interface value; the scan calls its methods \<^verbatim>\<open>GetID\<close> and
  \<^verbatim>\<open>GetType\<close> only, so a column is the pair of their results (a type is a \<^verbatim>\<open>*types.T\<close>,
  known by its address). A cell of a column slice is \<open>None\<close> when it holds \<^verbatim>\<open>nil\<close>.
\<close>

record column =
  GetID :: uint32
  GetType :: T

record Index =
  IndexID :: uint32
  Primary :: bool

record 'ts TableDescriptor =
  ReadableColumns :: "column list"
  PublicColumns :: "column list"
  SystemColumns :: "column list"
  ActiveIndexes :: "Index list"
  GetModificationTime :: 'ts

datatype ScanVisibility =
    ScanVisibilityPublic
  | ScanVisibilityPublicAndNotPublic

text \<open>
  A \<^verbatim>\<open>coldata.Batch\<close>: its length, its selection vector (\<open>None\<close> for \<^verbatim>\<open>nil\<close>) and the
  identity of its column vectors.
\<close>

record Batch =
  Length :: int64
  Selection :: "nat list option"
  ColVecs :: nat

record RemoteProducerMetadata_Metrics =
  BytesRead :: int64
  RowsRead :: int64

record ProducerMetadata =
  Ranges :: "nat list option"
  LeafTxnFinalState :: "nat option"
  Metrics :: "RemoteProducerMetadata_Metrics option"
  TraceData :: "nat list option"

record FlowCtx =
  Local :: bool
  OptionalNodeID :: "NodeID \<times> bool"
  Txn :: txn
  ForceProductionBatchSizes :: bool

record 'ts AsOfSystemTime =
  Timestamp :: 'ts
  BoundedStaleness :: bool
  NearestOnly :: bool
  MaxTimestampBound :: 'ts

record 'ts EvalContext =
  AsOfSystemTime :: "'ts AsOfSystemTime option"

record 'ts BoundedStalenessHeader =
  MinTimestampBound :: 'ts
  MinTimestampBoundStrict :: bool
  MaxTimestampBound :: 'ts

text \<open>
  The fields of \<^verbatim>\<open>execinfrapb.TableReaderSpec\<close> that \<^verbatim>\<open>NewColBatchScan\<close> reads; \<open>Table\<close> is
  the descriptor that \<^verbatim>\<open>spec.BuildTableDescriptor()\<close> builds.
\<close>

record 'ts TableReaderSpec =
  Table :: "'ts TableDescriptor"
  IndexIdx :: uint32
  IsCheck :: bool
  LimitHint :: int64
  BatchBytesLimit :: int64
  Parallelize :: bool
  Spans :: "TableReaderSpan list"
  NeededColumns :: "uint32 list"
  InvertedColumn :: "column option"
  Visibility :: ScanVisibility
  HasSystemColumns :: bool

record SpansWithCopy =
  Spans :: "Span slice"
  SpansCopy :: "Span slice"

record InitHelper =
  Ctx :: "ctx option"

subsection \<open>The structs of the file\<close>

record 'ts cFetcherTableArgs =
  desc :: "'ts TableDescriptor option"
  index :: "Index option"
  ColIdxMap :: "(uint32 \<times> nat) list"
  isSecondaryIndex :: bool
  cols :: "column option slice"
  ValNeededForCol :: "nat set"
  typs :: "T option slice"

record ('ts, 'rf) ColBatchScan =
  InitHelper :: InitHelper
  SpansWithCopy :: SpansWithCopy
  flowCtx :: "FlowCtx option"
  bsHeader :: "'ts BoundedStalenessHeader option"
  rf :: "'rf option"
  limitHint :: uint64
  batchBytesLimit :: uint64
  parallelize :: bool
  tracingSpan :: "tracing_span option"
  rowsRead :: int64
  ResultTypes :: "T option slice"

record 'ts StartScanArgs =
  scan_ctx :: "ctx option"
  scan_txn :: txn
  scan_spans :: "Span slice"
  scan_bsHeader :: "'ts BoundedStalenessHeader option"
  limitBatches :: bool
  scan_batchBytesLimit :: uint64
  scan_limitHint :: uint64
  forceProductionBatchSizes :: bool


section \<open>The collaborators\<close>

text \<open>
  The operator consumes services that are declared outside the file: the row-fetch engine
  (\<^verbatim>\<open>cFetcher\<close>, whose state is \<open>'rf\<close>), the type resolver, the batch memory allocator
  (whose state is \<open>'al\<close>), tracing, the range cache, the transaction layer, the timestamp
  order (timestamps are \<open>'ts\<close>) and the Go runtime's growth policy for \<^verbatim>\<open>append\<close>. Each is
  a parameter: a function from its arguments (and its state) to its result (and its new
  state). Nothing is assumed about them beyond their types.

  \<^item> \<open>DefaultBatchBytesLimit\<close> is the constant of that name of package rowinfra;
  \<^item> \<open>Less\<close> is the method \<^verbatim>\<open>Less\<close> of the timestamps;
  \<^item> \<open>execinfra_LimitHint\<close> is \<^verbatim>\<open>execinfra.LimitHint(_, post)\<close>;
  \<^item> \<open>HydrateTypeSlice\<close> is the method of the resolver that
    \<^verbatim>\<open>flowCtx.TypeResolverFactory.NewTypeResolver(evalCtx.Txn)\<close> returns;
  \<^item> \<open>cFetcher_Init\<close> is \<^verbatim>\<open>fetcher.Init(codec, allocator, kvFetcherMemAcc, tableArgs)\<close> on
    an engine whose \<^verbatim>\<open>cFetcherArgs\<close> have been set;
  \<^item> \<open>AdjustMemoryUsage\<close> may panic (the budget is bounded);
  \<^item> \<open>MakeSpansCopy\<close> and \<open>Reset\<close> are the methods of \<^verbatim>\<open>execinfra.SpansWithCopy\<close>.
\<close>

record ('ts, 'rf, 'al) externals =
  growslice :: "nat \<Rightarrow> nat \<Rightarrow> nat"
  DefaultBatchBytesLimit :: uint64
  execinfra_LimitHint :: "int64 \<Rightarrow> int64"
  FindInvertedColumn :: "'ts TableDescriptor \<Rightarrow> column option \<Rightarrow> column option"
  ColumnIDToOrdinalMap :: "column option list \<Rightarrow> (uint32 \<times> nat) list"
  HydrateTypeSlice :: "T option list \<Rightarrow> error option"
  Less :: "'ts \<Rightarrow> 'ts \<Rightarrow> bool"
  cFetcher_Init :: "'ts cFetcherTableArgs \<Rightarrow> 'rf \<Rightarrow> error option \<times> 'rf"
  cFetcher_Release :: "'rf \<Rightarrow> 'rf"
  StartScan :: "'ts StartScanArgs \<Rightarrow> 'rf \<Rightarrow> error option \<times> 'rf"
  NextBatch :: "ctx option \<Rightarrow> 'rf \<Rightarrow> (Batch option \<times> error option) \<times> 'rf"
  cFetcher_GetBytesRead :: "'rf \<Rightarrow> int64"
  AdjustMemoryUsage :: "int64 \<Rightarrow> 'al \<Rightarrow> 'al outcome"
  MemUsage :: "Span slice \<Rightarrow> int64"
  MakeSpansCopy :: "SpansWithCopy \<Rightarrow> SpansWithCopy"
  Reset :: "SpansWithCopy \<Rightarrow> SpansWithCopy"
  ProcessorSpan :: "ctx option \<Rightarrow> string \<Rightarrow> ctx \<times> tracing_span option"
  MisplannedRanges :: "ctx option \<Rightarrow> Span slice \<Rightarrow> NodeID \<Rightarrow> nat list option"
  GetLeafTxnFinalState :: "ctx option \<Rightarrow> txn \<Rightarrow> nat option"
  GetTraceData :: "ctx option \<Rightarrow> nat list option"

text \<open>
  Modelled from the spec: \<^verbatim>\<open>colexecop.InitHelper.Init\<close> is not under the sources. The
  spec calls it the idempotent guard of \<^verbatim>\<open>Init\<close>: a second call after the first completed
  is a no-op. The helper keeps the context of the first call and answers whether the call
  is the first one.
\<close>

definition InitHelper_Init :: "ctx \<Rightarrow> InitHelper \<Rightarrow> bool \<times> InitHelper" where
  "InitHelper_Init c h =
     (case Ctx h of
        Some c0 \<Rightarrow> (False, h)
      | None \<Rightarrow> (True, h\<lparr>Ctx := Some c\<rparr>))"

section \<open>The operator\<close>

subsection \<open>Zero values\<close>

definition zero_SpansWithCopy :: SpansWithCopy where
  "zero_SpansWithCopy = \<lparr>Spans = nil_slice, SpansCopy = nil_slice\<rparr>"

definition zero_ColBatchScan :: "('ts, 'rf) ColBatchScan" where
  "zero_ColBatchScan =
     \<lparr>InitHelper = \<lparr>Ctx = None\<rparr>, SpansWithCopy = zero_SpansWithCopy, flowCtx = None,
      bsHeader = None, rf = None, limitHint = 0, batchBytesLimit = 0, parallelize = False,
      tracingSpan = None, rowsRead = 0, ResultTypes = nil_slice\<rparr>"

definition zero_cFetcherTableArgs :: "'ts cFetcherTableArgs" where
  "zero_cFetcherTableArgs =
     \<lparr>desc = None, index = None, ColIdxMap = [], isSecondaryIndex = False,
      cols = nil_slice, ValNeededForCol = {}, typs = nil_slice\<rparr>"

definition zero_ProducerMetadata :: ProducerMetadata where
  "zero_ProducerMetadata =
     \<lparr>Ranges = None, LeafTxnFinalState = None, Metrics = None, TraceData = None\<rparr>"

definition zero_Metrics :: RemoteProducerMetadata_Metrics where
  "zero_Metrics = \<lparr>BytesRead = 0, RowsRead = 0\<rparr>"

subsection \<open>Init, Next and the counters\<close>

text \<open>
  \<^verbatim>\<open>Init\<close> (lines 85 to 107). A nil \<^verbatim>\<open>s.flowCtx\<close> or \<^verbatim>\<open>s.rf\<close> is a nil dereference. An error
  of \<^verbatim>\<open>StartScan\<close> is thrown as an internal error.
\<close>

definition Init ::
  "('ts, 'rf, 'al) externals \<Rightarrow> ctx \<Rightarrow> ('ts, 'rf) ColBatchScan \<Rightarrow> ('ts, 'rf) ColBatchScan outcome"
where
  "Init env c s =
     (case InitHelper_Init c (InitHelper s) of (first, h) \<Rightarrow>
        let s = s\<lparr>InitHelper := h\<rparr> in
        if \<not> first then Returned s
        else
          (case ProcessorSpan env (Ctx (InitHelper s)) ''colbatchscan'' of (c', sp) \<Rightarrow>
             let s = s\<lparr>InitHelper := (InitHelper s)\<lparr>Ctx := Some c'\<rparr>, tracingSpan := sp\<rparr>;
                 limitBatches = \<not> parallelize s
             in case flowCtx s of
                  None \<Rightarrow> Panicked NilPointerDereference
                | Some fc \<Rightarrow>
                    (case rf s of
                       None \<Rightarrow> Panicked NilPointerDereference
                     | Some f \<Rightarrow>
                         (case StartScan env
                                 \<lparr>scan_ctx = Ctx (InitHelper s), scan_txn = Txn fc,
                                  scan_spans = SpansWithCopy.Spans (SpansWithCopy s),
                                  scan_bsHeader = bsHeader s, limitBatches = limitBatches,
                                  scan_batchBytesLimit = batchBytesLimit s,
                                  scan_limitHint = limitHint s,
                                  forceProductionBatchSizes = ForceProductionBatchSizes fc\<rparr> f
                          of
                            (Some err, f') \<Rightarrow> Panicked (InternalError err)
                          | (None, f') \<Rightarrow> Returned (s\<lparr>rf := Some f'\<rparr>)))))"

text \<open>
  \<^verbatim>\<open>Next\<close> (lines 110 to 122) returns the batch and the operator after the call. A nil
  batch without an error would be a nil dereference at \<^verbatim>\<open>bat.Selection()\<close>.
\<close>

definition Next ::
  "('ts, 'rf, 'al) externals \<Rightarrow> ('ts, 'rf) ColBatchScan
     \<Rightarrow> (Batch \<times> ('ts, 'rf) ColBatchScan) outcome"
where
  "Next env s =
     (case rf s of
        None \<Rightarrow> Panicked NilPointerDereference
      | Some f \<Rightarrow>
          (case NextBatch env (Ctx (InitHelper s)) f of ((bat, err), f') \<Rightarrow>
             (case err of
                Some e \<Rightarrow> Panicked (InternalError e)
              | None \<Rightarrow>
                  (case bat of
                     None \<Rightarrow> Panicked NilPointerDereference
                   | Some b \<Rightarrow>
                       (case Selection b of
                          Some sel \<Rightarrow>
                            Panicked (InternalError (AssertionFailedf
                              ''unexpectedly a selection vector is set on the batch coming from CFetcher''))
                        | None \<Rightarrow>
                            Returned (b, s\<lparr>rf := Some f', rowsRead := rowsRead s + Length b\<rparr>))))))"

text \<open>\<^verbatim>\<open>GetBytesRead\<close> (lines 151 to 159) and \<^verbatim>\<open>GetRowsRead\<close> (lines 162 to 166).\<close>

definition GetBytesRead ::
  "('ts, 'rf, 'al) externals \<Rightarrow> ('ts, 'rf) ColBatchScan \<Rightarrow> int64 outcome"
where
  "GetBytesRead env s =
     (case rf s of
        None \<Rightarrow> Panicked NilPointerDereference
      | Some f \<Rightarrow> Returned (cFetcher_GetBytesRead env f))"

definition GetRowsRead :: "('ts, 'rf) ColBatchScan \<Rightarrow> int64" where
  "GetRowsRead s = rowsRead s"


subsection \<open>DrainMeta\<close>

text \<open>
  Modelled from the spec: \<^verbatim>\<open>execinfrapb.GetProducerMeta\<close> and \<^verbatim>\<open>GetMetricsMeta\<close> are
  not under the sources. They hand out pooled objects; the item built from them is the
  metrics item of the spec (bytes read and rows read), so the objects are zero values.

  \<^verbatim>\<open>DrainMeta\<close> (lines 125 to 148).
\<close>

definition DrainMeta ::
  "('ts, 'rf, 'al) externals \<Rightarrow> ('ts, 'rf) ColBatchScan \<Rightarrow> ProducerMetadata list outcome"
where
  "DrainMeta env s =
     (case flowCtx s of
        None \<Rightarrow> Panicked NilPointerDereference
      | Some fc \<Rightarrow>
          let trailingMeta = [];
              trailingMeta =
                (if \<not> Local fc then
                   (case OptionalNodeID fc of (nodeID, ok) \<Rightarrow>
                      if ok then
                        (case MisplannedRanges env (Ctx (InitHelper s))
                                (SpansCopy (SpansWithCopy s)) nodeID of
                           Some ranges \<Rightarrow>
                             trailingMeta @ [zero_ProducerMetadata\<lparr>Ranges := Some ranges\<rparr>]
                         | None \<Rightarrow> trailingMeta)
                      else trailingMeta)
                 else trailingMeta);
              trailingMeta =
                (case GetLeafTxnFinalState env (Ctx (InitHelper s)) (Txn fc) of
                   Some tfs \<Rightarrow>
                     trailingMeta @ [zero_ProducerMetadata\<lparr>LeafTxnFinalState := Some tfs\<rparr>]
                 | None \<Rightarrow> trailingMeta)
          in case GetBytesRead env s of
               Panicked p \<Rightarrow> Panicked p
             | Returned bytes \<Rightarrow>
                 let meta = zero_ProducerMetadata
                       \<lparr>Metrics := Some (zero_Metrics\<lparr>BytesRead := bytes, RowsRead := GetRowsRead s\<rparr>)\<rparr>;
                     trailingMeta = trailingMeta @ [meta];
                     trailingMeta =
                       (case GetTraceData env (Ctx (InitHelper s)) of
                          Some trace \<Rightarrow>
                            trailingMeta @ [zero_ProducerMetadata\<lparr>TraceData := Some trace\<rparr>]
                        | None \<Rightarrow> trailingMeta)
                 in Returned trailingMeta)"


subsection \<open>The column projection\<close>

text \<open>
  The loop of lines 350 to 355 of \<^verbatim>\<open>populateTableArgs\<close>, from index \<open>i\<close> on: the first
  column whose ID is that of the inverted column is overwritten, and the loop breaks.
\<close>

function invertedLoop ::
  "column \<Rightarrow> nat \<Rightarrow> column option slice \<Rightarrow> column option slice outcome"
where
  "invertedLoop invertedCol i cs =
     (if i < len cs then
        (case arr cs ! i of
           None \<Rightarrow> Panicked NilPointerDereference
         | Some col \<Rightarrow>
             if GetID col = GetID invertedCol
             then Returned (cs\<lparr>arr := (arr cs)[i := Some invertedCol]\<rparr>)
             else invertedLoop invertedCol (Suc i) cs)
      else Returned cs)"
  by pat_completeness auto
termination
  by (relation "measure (\<lambda>(invertedCol, i, cs). len cs - i)") auto

text \<open>The loop of lines 373 to 375, from index \<open>i\<close> on.\<close>

function typsLoop ::
  "nat \<Rightarrow> column option slice \<Rightarrow> T option slice \<Rightarrow> T option slice outcome"
where
  "typsLoop i cs ts =
     (if i < len cs then
        (case arr cs ! i of
           None \<Rightarrow> Panicked NilPointerDereference
         | Some col \<Rightarrow>
             if len ts \<le> i then Panicked IndexOutOfRange
             else typsLoop (Suc i) cs (ts\<lparr>arr := (arr ts)[i := Some (GetType col)]\<rparr>))
      else Returned ts)"
  by pat_completeness auto
termination
  by (relation "measure (\<lambda>(i, cs, ts). len cs - i)") auto

text \<open>
  \<^verbatim>\<open>populateTableArgs\<close> (lines 332 to 383). \<open>args0\<close> is the object that
  \<^verbatim>\<open>cFetcherTableArgsPool.Get()\<close> hands out. The context, the flow context and the
  evaluation context only reach the type resolver, which is the parameter
  \<open>HydrateTypeSlice\<close>. The function returns its object together with the error of the
  hydration, as the source does.
\<close>

definition populateTableArgs ::
  "('ts, 'rf, 'al) externals \<Rightarrow> 'ts cFetcherTableArgs \<Rightarrow> 'ts TableDescriptor \<Rightarrow> Index
     \<Rightarrow> column option \<Rightarrow> ScanVisibility \<Rightarrow> bool
     \<Rightarrow> ('ts cFetcherTableArgs \<times> error option) outcome"
where
  "populateTableArgs env args0 table idx invertedCol visibility hasSystemColumns =
     (let cs = reslice (cols args0) 0;
          cs = (if visibility = ScanVisibilityPublicAndNotPublic
                then appendN (growslice env) None cs (map Some (ReadableColumns table))
                else appendN (growslice env) None cs (map Some (PublicColumns table)))
      in case (case invertedCol of
                 Some ic \<Rightarrow> invertedLoop ic 0 cs
               | None \<Rightarrow> Returned cs) of
           Panicked p \<Rightarrow> Panicked p
         | Returned cs \<Rightarrow>
             let cs = (if hasSystemColumns
                       then appendN (growslice env) None cs (map Some (SystemColumns table))
                       else cs);
                 args = zero_cFetcherTableArgs
                   \<lparr>desc := Some table, index := Some idx,
                    ColIdxMap := ColumnIDToOrdinalMap env (elems cs),
                    isSecondaryIndex := \<not> Primary idx, cols := cs\<rparr>;
                 args = (if cap (typs args) < len cs
                         then args\<lparr>typs := make_slice None (len cs)\<rparr>
                         else args\<lparr>typs := reslice (typs args) (len cs)\<rparr>)
             in case typsLoop 0 cs (typs args) of
                  Panicked p \<Rightarrow> Panicked p
                | Returned ts \<Rightarrow>
                    let args = args\<lparr>typs := ts\<rparr>
                    in Returned (args, HydrateTypeSlice env (elems (typs args))))"

text \<open>\<^verbatim>\<open>cFetcherTableArgs.Release\<close> (lines 316 to 328); the result is the object put in the pool.\<close>

definition cFetcherTableArgs_Release :: "'ts cFetcherTableArgs \<Rightarrow> 'ts cFetcherTableArgs" where
  "cFetcherTableArgs_Release a =
     (let oldCols = cols a;
          oldCols = oldCols\<lparr>arr := foldl (\<lambda>xs i. xs[i := None]) (arr oldCols) [0..<len oldCols]\<rparr>;
          a' = zero_cFetcherTableArgs\<lparr>typs := reslice (typs a) 0\<rparr>;
          a' = a'\<lparr>cols := reslice oldCols 0\<rparr>
      in a')"

subsection \<open>Construction and release\<close>

text \<open>Lines 239 to 254 of \<^verbatim>\<open>NewColBatchScan\<close>: the bounded-staleness header.\<close>

definition boundedStalenessHeader ::
  "('ts, 'rf, 'al) externals \<Rightarrow> 'ts EvalContext \<Rightarrow> 'ts TableDescriptor
     \<Rightarrow> 'ts BoundedStalenessHeader option"
where
  "boundedStalenessHeader env evalCtx table =
     (case AsOfSystemTime evalCtx of
        None \<Rightarrow> None
      | Some aost \<Rightarrow>
          if BoundedStaleness aost then
            (let ts = Timestamp aost;
                 ts = (if Less env (Timestamp aost) (GetModificationTime table)
                       then GetModificationTime table else ts)
             in Some \<lparr>MinTimestampBound = ts,
                      MinTimestampBoundStrict = NearestOnly aost,
                      MaxTimestampBound = AsOfSystemTime.MaxTimestampBound aost\<rparr>)
          else None)"

text \<open>Lines 257 to 262: the spans of the specification are appended one by one.\<close>

definition resolveSpans ::
  "('ts, 'rf, 'al) externals \<Rightarrow> Span slice \<Rightarrow> TableReaderSpan list \<Rightarrow> Span slice"
where
  "resolveSpans env spans0 specSpans =
     foldl (\<lambda>sp x. appendN (growslice env) zero_Span sp [Span x]) (reslice spans0 0) specSpans"

text \<open>Lines 270 to 274 (the specification is changed in place) and lines 275 to 281.\<close>

definition disableParallelize :: "'ts TableReaderSpec \<Rightarrow> 'ts TableReaderSpec" where
  "disableParallelize spec =
     (if 0 < sint (LimitHint spec) \<or> 0 < sint (BatchBytesLimit spec)
      then spec\<lparr>Parallelize := False\<rparr> else spec)"

definition effectiveBatchBytesLimit ::
  "('ts, 'rf, 'al) externals \<Rightarrow> 'ts TableReaderSpec \<Rightarrow> uint64"
where
  "effectiveBatchBytesLimit env spec =
     (let batchBytesLimit = 0;
          batchBytesLimit =
            (if \<not> Parallelize spec then
               (let batchBytesLimit = BatchBytesLimit spec
                in if batchBytesLimit = 0 then DefaultBatchBytesLimit env
                   else batchBytesLimit)
             else batchBytesLimit)
      in batchBytesLimit)"

text \<open>Lines 219 to 221: the needed ordinals are added to the set of the projection.\<close>

definition neededColumns :: "'ts TableReaderSpec \<Rightarrow> 'ts cFetcherTableArgs \<Rightarrow> 'ts cFetcherTableArgs" where
  "neededColumns spec tableArgs =
     tableArgs\<lparr>ValNeededForCol :=
        foldl (\<lambda>needed neededColumn. insert (unat neededColumn) needed)
          (ValNeededForCol tableArgs) (NeededColumns spec)\<rparr>"

text \<open>
  \<^verbatim>\<open>NewColBatchScan\<close> (lines 185 to 294). \<open>fetcher\<close>, \<open>args0\<close> and \<open>s0\<close> are the objects that
  the three pools hand out. The function returns an error, or the operator together with
  the allocator and the specification as it leaves them; an index ordinal out of range
  and a panic of the allocator are panics.
\<close>

definition NewColBatchScan ::
  "('ts, 'rf, 'al) externals \<Rightarrow> 'rf \<Rightarrow> 'ts cFetcherTableArgs \<Rightarrow> ('ts, 'rf) ColBatchScan
     \<Rightarrow> 'al \<Rightarrow> FlowCtx \<Rightarrow> 'ts EvalContext \<Rightarrow> 'ts TableReaderSpec
     \<Rightarrow> (error + ('ts, 'rf) ColBatchScan \<times> 'al \<times> 'ts TableReaderSpec) outcome"
where
  "NewColBatchScan env fetcher args0 s0 allocator fc evalCtx spec =
     (case OptionalNodeID fc of (nodeID, ok) \<Rightarrow>
        if nodeID = 0 \<and> ok then
          Returned (Inl (Errorf
            ''attempting to create a ColBatchScan with uninitialized NodeID''))
        else if IsCheck spec then
          Returned (Inl (AssertionFailedf
            ''attempting to create a cFetcher with the IsCheck flag set''))
        else
          let limitHint = execinfra_LimitHint env (LimitHint spec);
              table = Table spec;
              invertedColumn = FindInvertedColumn env table (InvertedColumn spec)
          in if length (ActiveIndexes table) \<le> unat (IndexIdx spec)
             then Panicked IndexOutOfRange
             else
               (case populateTableArgs env args0 table
                       (ActiveIndexes table ! unat (IndexIdx spec)) invertedColumn
                       (Visibility spec) (HasSystemColumns spec) of
                  Panicked p \<Rightarrow> Panicked p
                | Returned (tableArgs, Some err) \<Rightarrow> Returned (Inl err)
                | Returned (tableArgs, None) \<Rightarrow>
                    let tableArgs = neededColumns spec tableArgs
                    in case cFetcher_Init env tableArgs fetcher of
                         (Some err, fetcher) \<Rightarrow> Returned (Inl err)
                       | (None, fetcher) \<Rightarrow>
                           let bsHeader = boundedStalenessHeader env evalCtx table;
                               swc = (SpansWithCopy s0)
                                 \<lparr>Spans := resolveSpans env (SpansWithCopy.Spans (SpansWithCopy s0))
                                             (TableReaderSpec.Spans spec)\<rparr>
                           in case (if \<not> Local fc then
                                      (case AdjustMemoryUsage env
                                              (MemUsage env (SpansWithCopy.Spans swc)) allocator of
                                         Panicked p \<Rightarrow> Panicked p
                                       | Returned allocator \<Rightarrow>
                                           Returned (MakeSpansCopy env swc, allocator))
                                    else Returned (swc, allocator)) of
                                Panicked p \<Rightarrow> Panicked p
                              | Returned (swc, allocator) \<Rightarrow>
                                  let spec = disableParallelize spec;
                                      batchBytesLimit = effectiveBatchBytesLimit env spec
                                  in Returned (Inr
                                       (zero_ColBatchScan
                                          \<lparr>SpansWithCopy := swc, flowCtx := Some fc,
                                           bsHeader := bsHeader, rf := Some fetcher,
                                           limitHint := limitHint,
                                           batchBytesLimit := batchBytesLimit,
                                           parallelize := Parallelize spec,
                                           ResultTypes := typs tableArgs\<rparr>,
                                        allocator, spec))))"

text \<open>
  \<^verbatim>\<open>ColBatchScan.Release\<close> (lines 386 to 394): the result is the operator put in its pool
  and the engine after its own release.
\<close>

definition Release ::
  "('ts, 'rf, 'al) externals \<Rightarrow> ('ts, 'rf) ColBatchScan
     \<Rightarrow> (('ts, 'rf) ColBatchScan \<times> 'rf) outcome"
where
  "Release env s =
     (case rf s of
        None \<Rightarrow> Panicked NilPointerDereference
      | Some f \<Rightarrow>
          let f = cFetcher_Release env f;
              s = s\<lparr>SpansWithCopy := Reset env (SpansWithCopy s)\<rparr>;
              s = zero_ColBatchScan\<lparr>SpansWithCopy := SpansWithCopy s\<rparr>
          in Returned (s, f))"

section \<open>Notions of the specification\<close>

text \<open>A slice is well formed when its window lies within its array.\<close>

definition wf_slice :: "'a slice \<Rightarrow> bool" where
  "wf_slice s = (len s \<le> cap s)"

text \<open>
  The projection as the specification words it: all readable columns when the visibility
  asks for public and non-public columns, else the public ones; the column whose identity
  is that of the inverted column replaced in place by the inverted variant (the first such
  column: identities are unique within a table); the system columns appended as a trailing
  block on request.
\<close>

fun substituteInverted :: "column \<Rightarrow> column list \<Rightarrow> column list" where
  "substituteInverted ic [] = []"
| "substituteInverted ic (c # cs) =
     (if GetID c = GetID ic then ic # cs else c # substituteInverted ic cs)"

definition baseColumns :: "'ts TableDescriptor \<Rightarrow> ScanVisibility \<Rightarrow> column list" where
  "baseColumns table visibility =
     (if visibility = ScanVisibilityPublicAndNotPublic
      then ReadableColumns table else PublicColumns table)"

definition projection ::
  "'ts TableDescriptor \<Rightarrow> column option \<Rightarrow> ScanVisibility \<Rightarrow> bool \<Rightarrow> column list"
where
  "projection table invertedCol visibility hasSystemColumns =
     (case invertedCol of
        Some ic \<Rightarrow> substituteInverted ic (baseColumns table visibility)
      | None \<Rightarrow> baseColumns table visibility)
     @ (if hasSystemColumns then SystemColumns table else [])"

text \<open>
  The step of \<^verbatim>\<open>DrainMeta\<close> that an item of the trailing metadata comes from: 0 for the
  misplanned ranges, 1 for the final state of the leaf transaction, 2 for the metrics,
  3 for the trace data, and 4 for an item that carries nothing.
\<close>

definition metaStep :: "ProducerMetadata \<Rightarrow> nat" where
  "metaStep m =
     (if Ranges m \<noteq> None then 0
      else if LeafTxnFinalState m \<noteq> None then 1
      else if Metrics m \<noteq> None then 2
      else if TraceData m \<noteq> None then 3
      else 4)"

section \<open>Example inputs\<close>

text \<open>
  A table with three public columns, one more readable column and one system column, read
  through its secondary index by a distributed flow on node 3, with a byte limit and a
  bounded-staleness read. The example engine is scripted: its state is the list of the
  answers that \<^verbatim>\<open>NextBatch\<close> still has to give, and the list of the arguments that
  \<^verbatim>\<open>StartScan\<close> has received.
\<close>

definition example_columns :: "column list" where
  "example_columns =
     [\<lparr>GetID = 1, GetType = 20\<rparr>, \<lparr>GetID = 2, GetType = 25\<rparr>, \<lparr>GetID = 3, GetType = 16\<rparr>]"

definition example_table :: "int TableDescriptor" where
  "example_table =
     \<lparr>ReadableColumns = example_columns @ [\<lparr>GetID = 4, GetType = 20\<rparr>],
      PublicColumns = example_columns,
      SystemColumns = [\<lparr>GetID = 4294967295, GetType = 1700\<rparr>],
      ActiveIndexes = [\<lparr>IndexID = 1, Primary = True\<rparr>, \<lparr>IndexID = 2, Primary = False\<rparr>],
      GetModificationTime = 50\<rparr>"

definition example_spec :: "int TableReaderSpec" where
  "example_spec =
     \<lparr>Table = example_table, IndexIdx = 1, IsCheck = False, LimitHint = 0,
      BatchBytesLimit = 4096, Parallelize = True,
      Spans = [\<lparr>Span = \<lparr>Key = ''a'', EndKey = ''b''\<rparr>\<rparr>, \<lparr>Span = \<lparr>Key = ''c'', EndKey = ''d''\<rparr>\<rparr>],
      NeededColumns = [0, 2],
      InvertedColumn = Some \<lparr>GetID = 2, GetType = 17\<rparr>,
      Visibility = ScanVisibilityPublic, HasSystemColumns = True\<rparr>"

definition example_flowCtx :: FlowCtx where
  "example_flowCtx =
     \<lparr>Local = False, OptionalNodeID = (3, True), Txn = 7, ForceProductionBatchSizes = False\<rparr>"

definition example_evalCtx :: "int EvalContext" where
  "example_evalCtx =
     \<lparr>AsOfSystemTime = Some \<lparr>Timestamp = 40, BoundedStaleness = True, NearestOnly = False,
                              MaxTimestampBound = 0\<rparr>\<rparr>"

type_synonym scripted_fetcher = "(Batch option \<times> error option) list \<times> int StartScanArgs list"

definition example_env :: "(int, scripted_fetcher, int64) externals" where
  "example_env =
     \<lparr>growslice = (\<lambda>old n. 2 * n),
      DefaultBatchBytesLimit = 10485760,
      execinfra_LimitHint = (\<lambda>h. h),
      FindInvertedColumn = (\<lambda>table c. c),
      ColumnIDToOrdinalMap = (\<lambda>cs. []),
      HydrateTypeSlice = (\<lambda>ts. None),
      Less = (<),
      cFetcher_Init = (\<lambda>tableArgs f. (None, f)),
      cFetcher_Release = (\<lambda>f. ([], [])),
      StartScan = (\<lambda>a (rs, started). (None, (rs, started @ [a]))),
      NextBatch = (\<lambda>c (rs, started). case rs of
                      [] \<Rightarrow> ((Some \<lparr>Length = 0, Selection = None, ColVecs = 0\<rparr>, None),
                             ([], started))
                    | r # rs' \<Rightarrow> (r, (rs', started))),
      cFetcher_GetBytesRead = (\<lambda>f. 0),
      AdjustMemoryUsage = (\<lambda>delta a. Returned (a + delta)),
      MemUsage = (\<lambda>sp. 64 * of_nat (len sp)),
      MakeSpansCopy = (\<lambda>sc. sc\<lparr>SpansCopy := \<lparr>arr = elems (SpansWithCopy.Spans sc),
                                             len = len (SpansWithCopy.Spans sc)\<rparr>\<rparr>),
      Reset = (\<lambda>sc. zero_SpansWithCopy),
      ProcessorSpan = (\<lambda>c name. (1, None)),
      MisplannedRanges = (\<lambda>c sp n. None),
      GetLeafTxnFinalState = (\<lambda>c t. None),
      GetTraceData = (\<lambda>c. None)\<rparr>"

definition example_fetcher :: scripted_fetcher where
  "example_fetcher =
    ([(Some \<lparr>Length = 3, Selection = None, ColVecs = 1\<rparr>, None),
      (Some \<lparr>Length = 2, Selection = None, ColVecs = 2\<rparr>, None),
      (Some \<lparr>Length = 1, Selection = Some [0], ColVecs = 3\<rparr>, None)], [])"

definition example_operator :: "(int, scripted_fetcher) ColBatchScan" where
  "example_operator =
     zero_ColBatchScan\<lparr>flowCtx := Some example_flowCtx, rf := Some example_fetcher,
                        batchBytesLimit := 4096\<rparr>"

definition selection_fetcher :: scripted_fetcher where
  "selection_fetcher = ([(Some \<lparr>Length = 1, Selection = Some [0], ColVecs = 3\<rparr>, None)], [])"

text \<open>An engine whose \<^verbatim>\<open>Init\<close> fails, and collaborators that all have metadata to report.\<close>

definition failing_init_env :: "(int, scripted_fetcher, int64) externals" where
  "failing_init_env =
     example_env\<lparr>cFetcher_Init := (\<lambda>tableArgs f. (Some (ExternalError ''init''), f))\<rparr>"

definition draining_env :: "(int, scripted_fetcher, int64) externals" where
  "draining_env =
     example_env\<lparr>MisplannedRanges := (\<lambda>c sp n. Some [4]),
                  GetLeafTxnFinalState := (\<lambda>c t. Some 11),
                  GetTraceData := (\<lambda>c. Some [1, 2])\<rparr>"

definition example_trailingMeta :: "ProducerMetadata list" where
  "example_trailingMeta =
     [zero_ProducerMetadata\<lparr>Ranges := Some [4]\<rparr>,
      zero_ProducerMetadata\<lparr>LeafTxnFinalState := Some 11\<rparr>,
      zero_ProducerMetadata\<lparr>Metrics := Some \<lparr>BytesRead = 0, RowsRead = 5\<rparr>\<rparr>,
      zero_ProducerMetadata\<lparr>TraceData := Some [1, 2]\<rparr>]"

text \<open>A projection object as it is before its release: two columns in an array of three cells.\<close>

definition example_tableArgs :: "int cFetcherTableArgs" where
  "example_tableArgs =
     \<lparr>desc = Some example_table, index = Some \<lparr>IndexID = 1, Primary = True\<rparr>,
      ColIdxMap = [(1, 0), (2, 1)], isSecondaryIndex = False,
      cols = \<lparr>arr = [Some \<lparr>GetID = 1, GetType = 20\<rparr>, Some \<lparr>GetID = 2, GetType = 25\<rparr>, None],
               len = 2\<rparr>,
      ValNeededForCol = {0, 1},
      typs = \<lparr>arr = [Some 20, Some 25], len = 2\<rparr>\<rparr>"

section \<open>Lemmas\<close>

subsection \<open>Slices\<close>

lemma wf_reslice0: "wf_slice (reslice s 0)"
  by (simp add: wf_slice_def reslice_def)

lemma elems_reslice0: "elems (reslice s 0) = []"
  by (simp add: elems_def reslice_def)

lemma len_appendN: "len (appendN g z s xs) = len s + length xs"
  by (simp add: appendN_def Let_def)

lemma wf_appendN: "wf_slice s \<Longrightarrow> wf_slice (appendN g z s xs)"
  by (auto simp: wf_slice_def appendN_def cap_def Let_def)

lemma elems_appendN: "wf_slice s \<Longrightarrow> elems (appendN g z s xs) = elems s @ xs"
  by (auto simp: wf_slice_def appendN_def cap_def elems_def Let_def)

lemma slice_arr_split:
  "wf_slice s \<Longrightarrow> elems s = xs \<Longrightarrow> arr s = xs @ drop (len s) (arr s) \<and> length xs = len s"
  by (auto simp: wf_slice_def cap_def elems_def)


lemma clear_cells:
  "foldl (\<lambda>xs i. xs[i := None]) xs [0..<n] = replicate (min n (length xs)) None @ drop n xs"
proof (induction n)
  case 0
  then show ?case by simp
next
  case (Suc n)
  show ?case
  proof (cases "n < length xs")
    case True
    then have "drop n xs = xs ! n # drop (Suc n) xs"
      by (simp add: Cons_nth_drop_Suc)
    with True Suc show ?thesis
      by (simp add: list_update_append min_def replicate_append_same)
  next
    case False
    with Suc show ?thesis by (simp add: min_def list_update_beyond)
  qed
qed

subsection \<open>The loops of the projection\<close>

lemma length_substituteInverted: "length (substituteInverted ic cs) = length cs"
  by (induction cs) auto

lemma invertedLoop_result:
  "wf_slice cs \<Longrightarrow> elems cs = map Some xs \<Longrightarrow> i \<le> len cs \<Longrightarrow>
     invertedLoop ic i cs =
       Returned (cs\<lparr>arr := map Some (take i xs @ substituteInverted ic (drop i xs))
                          @ drop (len cs) (arr cs)\<rparr>)"
proof (induction ic i cs rule: invertedLoop.induct)
  case (1 ic i cs)
  from slice_arr_split [OF "1.prems"(1,2)]
  have ar: "arr cs = map Some xs @ drop (len cs) (arr cs)" and lx: "length xs = len cs"
    by simp_all
  show ?case
  proof (cases "i < len cs")
    case False
    with "1.prems"(3) lx have "i = length xs" by simp
    with False ar show ?thesis
      by (subst invertedLoop.simps) simp
  next
    case True
    then have ix: "i < length xs" using lx by simp
    have nth: "arr cs ! i = Some (xs ! i)"
      by (subst ar) (simp add: nth_append ix)
    have dr: "drop i xs = xs ! i # drop (Suc i) xs"
      using ix by (simp add: Cons_nth_drop_Suc)
    show ?thesis
    proof (cases "GetID (xs ! i) = GetID ic")
      case same: True
      have "(arr cs)[i := Some ic] =
              map Some (take i xs @ ic # drop (Suc i) xs) @ drop (len cs) (arr cs)"
      proof -
        have "(arr cs)[i := Some ic] = (map Some xs)[i := Some ic] @ drop (len cs) (arr cs)"
          by (subst ar) (simp add: list_update_append ix)
        also have "(map Some xs)[i := Some ic] = map Some (xs[i := ic])"
          by (simp add: map_update)
        also have "xs[i := ic] = take i xs @ ic # drop (Suc i) xs"
          using ix by (simp add: upd_conv_take_nth_drop)
        finally show ?thesis .
      qed
      with True nth same dr show ?thesis
        by (subst invertedLoop.simps) simp
    next
      case diff: False
      have "invertedLoop ic (Suc i) cs =
              Returned (cs\<lparr>arr := map Some (take (Suc i) xs
                                  @ substituteInverted ic (drop (Suc i) xs))
                                @ drop (len cs) (arr cs)\<rparr>)"
        using "1.IH" [OF True nth diff "1.prems"(1,2)] True by simp
      moreover have "take (Suc i) xs = take i xs @ [xs ! i]"
        using ix by (simp add: take_Suc_conv_app_nth)
      ultimately show ?thesis
        using True nth diff dr by (subst invertedLoop.simps) simp
    qed
  qed
qed

lemma typsLoop_result:
  "wf_slice cs \<Longrightarrow> elems cs = map Some xs \<Longrightarrow> len ts = len cs \<Longrightarrow> wf_slice ts \<Longrightarrow>
     i \<le> len cs \<Longrightarrow>
     typsLoop i cs ts =
       Returned (ts\<lparr>arr := take i (arr ts) @ map (\<lambda>c. Some (GetType c)) (drop i xs)
                          @ drop (len cs) (arr ts)\<rparr>)"
proof (induction i cs ts rule: typsLoop.induct)
  case (1 i cs ts)
  from slice_arr_split [OF "1.prems"(1,2)]
  have ar: "arr cs = map Some xs @ drop (len cs) (arr cs)" and lx: "length xs = len cs"
    by simp_all
  have lt: "len cs \<le> length (arr ts)"
    using "1.prems"(3,4) by (simp add: wf_slice_def cap_def)
  show ?case
  proof (cases "i < len cs")
    case False
    with "1.prems"(5) lx have "i = len cs" by simp
    with False lx show ?thesis
      by (subst typsLoop.simps) simp
  next
    case True
    then have ix: "i < length xs" using lx by simp
    have nth: "arr cs ! i = Some (xs ! i)"
      by (subst ar) (simp add: nth_append ix)
    have dr: "drop i xs = xs ! i # drop (Suc i) xs"
      using ix by (simp add: Cons_nth_drop_Suc)
    let ?ts = "ts\<lparr>arr := (arr ts)[i := Some (GetType (xs ! i))]\<rparr>"
    have nle: "\<not> len ts \<le> i" using True "1.prems"(3) by simp
    have wf': "wf_slice ?ts" using "1.prems"(4) by (simp add: wf_slice_def cap_def)
    have "typsLoop (Suc i) cs ?ts =
            Returned (?ts\<lparr>arr := take (Suc i) (arr ?ts)
                               @ map (\<lambda>c. Some (GetType c)) (drop (Suc i) xs)
                               @ drop (len cs) (arr ?ts)\<rparr>)"
      using "1.IH" [OF True nth nle "1.prems"(1,2) _ wf'] True "1.prems"(3) by simp
    moreover have "take (Suc i) (arr ?ts) = take i (arr ts) @ [Some (GetType (xs ! i))]"
      using True lt by (simp add: take_Suc_conv_app_nth)
    moreover have "drop (len cs) (arr ?ts) = drop (len cs) (arr ts)"
      using True by simp
    ultimately show ?thesis
      using True nth nle dr by (subst typsLoop.simps) simp
  qed
qed

lemma populate_cols:
  fixes env :: "('ts, 'rf, 'al) externals"
  defines "g \<equiv> growslice env"
  shows "\<exists>cs. (case invertedCol of
            Some ic \<Rightarrow> invertedLoop ic 0
                (appendN g None (reslice (cols pargs) 0) (map Some (baseColumns table visibility)))
          | None \<Rightarrow> Returned
                (appendN g None (reslice (cols pargs) 0) (map Some (baseColumns table visibility))))
          = Returned cs
        \<and> wf_slice cs
        \<and> elems cs = map Some (case invertedCol of
              Some ic \<Rightarrow> substituteInverted ic (baseColumns table visibility)
            | None \<Rightarrow> baseColumns table visibility)"
proof -
  let ?base = "baseColumns table visibility"
  let ?cs1 = "appendN g None (reslice (cols pargs) 0) (map Some ?base)"
  have wf1: "wf_slice ?cs1" by (simp add: wf_appendN wf_reslice0)
  have el1: "elems ?cs1 = map Some ?base"
    by (simp add: elems_appendN wf_reslice0 elems_reslice0)
  have len1: "len ?cs1 = length ?base" by (simp add: len_appendN reslice_def)
  show ?thesis
  proof (cases invertedCol)
    case None
    with wf1 el1 show ?thesis by simp
  next
    case (Some ic)
    let ?cs2 = "?cs1\<lparr>arr := map Some (take 0 ?base @ substituteInverted ic (drop 0 ?base))
                          @ drop (len ?cs1) (arr ?cs1)\<rparr>"
    have run: "invertedLoop ic 0 ?cs1 = Returned ?cs2"
      by (rule invertedLoop_result [OF wf1 el1]) simp
    have "wf_slice ?cs2"
      using wf1 len1 by (simp add: wf_slice_def cap_def length_substituteInverted)
    moreover have "elems ?cs2 = map Some (substituteInverted ic ?base)"
      using len1 by (simp add: elems_def length_substituteInverted)
    ultimately show ?thesis using Some run by simp
  qed
qed

lemma populate_typs:
  assumes wf: "wf_slice cs" and el: "elems cs = map Some xs"
  shows "\<exists>ts. typsLoop 0 cs
              (if cap (nil_slice :: T option slice) < len cs
               then make_slice None (len cs) else reslice nil_slice (len cs)) = Returned ts
           \<and> elems ts = map (\<lambda>c. Some (GetType c)) xs \<and> len ts = len cs"
proof -
  let ?ts0 = "if cap (nil_slice :: T option slice) < len cs
              then make_slice None (len cs) else reslice nil_slice (len cs)"
  from slice_arr_split [OF wf el] have lx: "length xs = len cs" by simp
  have l0: "len ?ts0 = len cs" by (simp add: make_slice_def reslice_def)
  have wf0: "wf_slice ?ts0"
    by (auto simp: wf_slice_def cap_def make_slice_def reslice_def nil_slice_def)
  have "typsLoop 0 cs ?ts0 =
          Returned (?ts0\<lparr>arr := take 0 (arr ?ts0) @ map (\<lambda>c. Some (GetType c)) (drop 0 xs)
                              @ drop (len cs) (arr ?ts0)\<rparr>)"
    by (rule typsLoop_result [OF wf el l0 wf0]) simp
  moreover have "elems (?ts0\<lparr>arr := take 0 (arr ?ts0) @ map (\<lambda>c. Some (GetType c)) (drop 0 xs)
                              @ drop (len cs) (arr ?ts0)\<rparr>) = map (\<lambda>c. Some (GetType c)) xs"
    using lx by (simp add: elems_def make_slice_def reslice_def)
  ultimately show ?thesis using l0 by auto
qed

lemma populateTableArgs_run:
  "\<exists>cs ts. populateTableArgs env pargs table idx invertedCol visibility hasSystemColumns =
       Returned (zero_cFetcherTableArgs
                   \<lparr>desc := Some table, index := Some idx,
                    ColIdxMap := ColumnIDToOrdinalMap env (elems cs),
                    isSecondaryIndex := \<not> Primary idx, cols := cs, typs := ts\<rparr>,
                 HydrateTypeSlice env (elems ts))
     \<and> wf_slice cs
     \<and> elems cs = map Some (projection table invertedCol visibility hasSystemColumns)
     \<and> elems ts =
         map (\<lambda>c. Some (GetType c)) (projection table invertedCol visibility hasSystemColumns)
     \<and> len ts = len cs"
proof -
  let ?g = "growslice env"
  let ?sub = "case invertedCol of
        Some ic \<Rightarrow> substituteInverted ic (baseColumns table visibility)
      | None \<Rightarrow> baseColumns table visibility"
  from populate_cols [where invertedCol = invertedCol and env = env and pargs = pargs
      and table = table and visibility = visibility]
  obtain cs where
    run1: "(case invertedCol of
            Some ic \<Rightarrow> invertedLoop ic 0
                (appendN ?g None (reslice (cols pargs) 0) (map Some (baseColumns table visibility)))
          | None \<Rightarrow> Returned
                (appendN ?g None (reslice (cols pargs) 0) (map Some (baseColumns table visibility))))
          = Returned cs"
    and wf: "wf_slice cs" and el: "elems cs = map Some ?sub"
    by blast
  let ?cs = "if hasSystemColumns then appendN ?g None cs (map Some (SystemColumns table)) else cs"
  let ?xs = "projection table invertedCol visibility hasSystemColumns"
  have wf3: "wf_slice ?cs" using wf by (simp add: wf_appendN)
  have el3: "elems ?cs = map Some ?xs"
    using wf el by (simp add: elems_appendN projection_def)
  from populate_typs [OF wf3 el3] obtain ts where
    run2: "typsLoop 0 ?cs
              (if cap (nil_slice :: T option slice) < len ?cs
               then make_slice None (len ?cs) else reslice nil_slice (len ?cs)) = Returned ts"
    and elt: "elems ts = map (\<lambda>c. Some (GetType c)) ?xs" and lt: "len ts = len ?cs"
    by blast
  have base: "(if visibility = ScanVisibilityPublicAndNotPublic
      then appendN ?g None (reslice (cols pargs) 0) (map Some (ReadableColumns table))
      else appendN ?g None (reslice (cols pargs) 0) (map Some (PublicColumns table)))
     = appendN ?g None (reslice (cols pargs) 0) (map Some (baseColumns table visibility))"
    by (simp add: baseColumns_def)
  show ?thesis
    unfolding populateTableArgs_def Let_def base run1
    using run2 elt lt el3 wf3
    by (simp add: zero_cFetcherTableArgs_def if_distrib [of typs] cong: if_cong)
qed

subsection \<open>Construction\<close>


lemma NewColBatchScan_Inr:
  assumes "NewColBatchScan env fetcher pargs pooled al fc evalCtx spec = Returned (Inr (s, al', spec'))"
  shows "\<exists>tableArgs fetcher' swc.
      \<not> (fst (OptionalNodeID fc) = 0 \<and> snd (OptionalNodeID fc)) \<and> \<not> IsCheck spec
    \<and> unat (IndexIdx spec) < length (ActiveIndexes (Table spec))
    \<and> populateTableArgs env pargs (Table spec) (ActiveIndexes (Table spec) ! unat (IndexIdx spec))
         (FindInvertedColumn env (Table spec) (InvertedColumn spec))
         (Visibility spec) (HasSystemColumns spec) = Returned (tableArgs, None)
    \<and> cFetcher_Init env (neededColumns spec tableArgs) fetcher = (None, fetcher')
    \<and> (if \<not> Local fc
        then AdjustMemoryUsage env (MemUsage env
               (resolveSpans env (SpansWithCopy.Spans (SpansWithCopy pooled)) (TableReaderSpec.Spans spec))) al
               = Returned al'
           \<and> swc = MakeSpansCopy env ((SpansWithCopy pooled)
                 \<lparr>Spans := resolveSpans env (SpansWithCopy.Spans (SpansWithCopy pooled))
                             (TableReaderSpec.Spans spec)\<rparr>)
        else al' = al
           \<and> swc = (SpansWithCopy pooled)
                 \<lparr>Spans := resolveSpans env (SpansWithCopy.Spans (SpansWithCopy pooled))
                             (TableReaderSpec.Spans spec)\<rparr>)
    \<and> spec' = disableParallelize spec
    \<and> s = zero_ColBatchScan
          \<lparr>SpansWithCopy := swc, flowCtx := Some fc,
           bsHeader := boundedStalenessHeader env evalCtx (Table spec), rf := Some fetcher',
           limitHint := execinfra_LimitHint env (LimitHint spec),
           batchBytesLimit := effectiveBatchBytesLimit env (disableParallelize spec),
           parallelize := Parallelize (disableParallelize spec),
           ResultTypes := typs (neededColumns spec tableArgs)\<rparr>"
  using assms
  unfolding NewColBatchScan_def neededColumns_def Let_def
  by (auto split: prod.splits if_splits outcome.splits option.splits)

lemmas example_defs = example_env_def example_spec_def example_table_def example_columns_def
  example_flowCtx_def example_evalCtx_def example_fetcher_def

lemmas eval_defs = NewColBatchScan_def populateTableArgs_def Let_def
  zero_cFetcherTableArgs_def zero_ColBatchScan_def zero_SpansWithCopy_def reslice_def appendN_def
  nil_slice_def cap_def make_slice_def elems_def resolveSpans_def zero_Span_def
  disableParallelize_def effectiveBatchBytesLimit_def boundedStalenessHeader_def

lemma example_new:
  "\<exists>s al' spec'. NewColBatchScan example_env example_fetcher zero_cFetcherTableArgs zero_ColBatchScan 0
         example_flowCtx example_evalCtx example_spec = Returned (Inr (s, al', spec'))"
  by (simp add: eval_defs example_defs)

subsection \<open>The counter\<close>





subsection \<open>The example drain\<close>

lemma example_drain:
  "DrainMeta draining_env (example_operator\<lparr>rowsRead := 5\<rparr>) = Returned example_trailingMeta"
  by (simp add: DrainMeta_def GetBytesRead_def GetRowsRead_def example_operator_def Let_def
        draining_env_def example_env_def example_flowCtx_def example_trailingMeta_def
        zero_Metrics_def)

lemma example_drain_local:
  "DrainMeta draining_env
     (example_operator\<lparr>flowCtx := Some (example_flowCtx\<lparr>Local := True\<rparr>), rowsRead := 5\<rparr>)
   = Returned (tl example_trailingMeta)"
  by (simp add: DrainMeta_def GetBytesRead_def GetRowsRead_def example_operator_def Let_def
        draining_env_def example_env_def example_flowCtx_def example_trailingMeta_def
        zero_Metrics_def)

section \<open>The claims\<close>

text \<open>
  Claim C1. Whenever \<^verbatim>\<open>NewColBatchScan\<close> returns an operator for a specification whose row
  limit hint or explicit byte limit is set (positive), parallelization is disabled, in the
  operator and in the specification, and a set byte limit is kept as it is. The byte limit
  of the operator is the explicit limit of the specification, or the default when that
  limit is zero, whenever the operator does not parallelize, and is zero whenever it does;
  the operator parallelizes exactly when the specification asks for it and sets no limit.
\<close>

theorem NewColBatchScan_limits:
  assumes "NewColBatchScan env fetcher pargs pooled al fc evalCtx spec = Returned (Inr (s, al', spec'))"
  shows "((0 < sint (LimitHint spec) \<or> 0 < sint (BatchBytesLimit spec))
            \<longrightarrow> \<not> parallelize s \<and> \<not> Parallelize spec')
       \<and> (0 < sint (BatchBytesLimit spec) \<longrightarrow> batchBytesLimit s = BatchBytesLimit spec)
       \<and> (\<not> parallelize s \<longrightarrow>
            batchBytesLimit s = (if BatchBytesLimit spec = 0 then DefaultBatchBytesLimit env
                                 else BatchBytesLimit spec))
       \<and> (parallelize s \<longrightarrow> batchBytesLimit s = 0)
       \<and> parallelize s =
            (Parallelize spec \<and> \<not> (0 < sint (LimitHint spec) \<or> 0 < sint (BatchBytesLimit spec)))
       \<and> limitHint s = execinfra_LimitHint env (LimitHint spec)"
proof -
  from NewColBatchScan_Inr [OF assms] obtain tableArgs fetcher' swc where
    s: "s = zero_ColBatchScan
          \<lparr>SpansWithCopy := swc, flowCtx := Some fc,
           bsHeader := boundedStalenessHeader env evalCtx (Table spec), rf := Some fetcher',
           limitHint := execinfra_LimitHint env (LimitHint spec),
           batchBytesLimit := effectiveBatchBytesLimit env (disableParallelize spec),
           parallelize := Parallelize (disableParallelize spec),
           ResultTypes := typs (neededColumns spec tableArgs)\<rparr>"
    and sp: "spec' = disableParallelize spec"
    by blast
  show ?thesis
    unfolding s sp
    by (auto simp: disableParallelize_def effectiveBatchBytesLimit_def Let_def)
qed

theorem NewColBatchScan_limits_witness:
  "(case NewColBatchScan example_env example_fetcher zero_cFetcherTableArgs zero_ColBatchScan 0
           example_flowCtx example_evalCtx example_spec of
      Returned (Inr (s, al', spec')) \<Rightarrow>
        \<not> parallelize s \<and> \<not> Parallelize spec' \<and> batchBytesLimit s = 4096 \<and> limitHint s = 0
    | Returned (Inl e) \<Rightarrow> False
    | Panicked p \<Rightarrow> False)"
proof -
  from example_new obtain s al' spec' where
    new: "NewColBatchScan example_env example_fetcher zero_cFetcherTableArgs zero_ColBatchScan 0
         example_flowCtx example_evalCtx example_spec = Returned (Inr (s, al', spec'))"
    by blast
  from NewColBatchScan_limits [OF new] show ?thesis
    unfolding new by (simp add: example_spec_def example_env_def)
qed

text \<open>
  Claim C2. When the engine hands a batch to \<^verbatim>\<open>Next\<close>: if the batch carries a selection
  vector, \<^verbatim>\<open>Next\<close> panics with an internal error (the assertion failure of the file when
  the engine reported no error of its own) and returns nothing; if the batch carries no
  selection vector and the engine reported no error, \<^verbatim>\<open>Next\<close> returns that very batch.
\<close>

theorem Next_selection_vector:
  assumes "rf s = Some f" and "NextBatch env (Ctx (InitHelper s)) f = ((Some b, err), f')"
  shows "(Selection b \<noteq> None \<longrightarrow>
            Next env s = Panicked (InternalError (case err of
                Some e \<Rightarrow> e
              | None \<Rightarrow> AssertionFailedf
                  ''unexpectedly a selection vector is set on the batch coming from CFetcher''))
          \<and> (\<forall>r. Next env s \<noteq> Returned r))
       \<and> (Selection b = None \<and> err = None \<longrightarrow>
            Next env s = Returned (b, s\<lparr>rf := Some f', rowsRead := rowsRead s + Length b\<rparr>))"
  using assms by (auto simp: Next_def split: option.splits)

theorem Next_selection_vector_witness:
  "Next example_env (example_operator\<lparr>rf := Some selection_fetcher\<rparr>) =
     Panicked (InternalError (AssertionFailedf
       ''unexpectedly a selection vector is set on the batch coming from CFetcher''))
   \<and> Next example_env example_operator =
       Returned (\<lparr>Length = 3, Selection = None, ColVecs = 1\<rparr>,
         example_operator\<lparr>rf := Some ([(Some \<lparr>Length = 2, Selection = None, ColVecs = 2\<rparr>, None),
                                         (Some \<lparr>Length = 1, Selection = Some [0], ColVecs = 3\<rparr>, None)], []),
                          rowsRead := 3\<rparr>)"
proof -
  have a: "rf (example_operator\<lparr>rf := Some selection_fetcher\<rparr>) = Some selection_fetcher"
    by simp
  have b: "NextBatch example_env (Ctx (InitHelper (example_operator\<lparr>rf := Some selection_fetcher\<rparr>)))
             selection_fetcher
           = ((Some \<lparr>Length = 1, Selection = Some [0], ColVecs = 3\<rparr>, None), ([], []))"
    by (simp add: example_env_def selection_fetcher_def)
  have c: "rf example_operator = Some example_fetcher"
    by (simp add: example_operator_def)
  have d: "NextBatch example_env (Ctx (InitHelper example_operator)) example_fetcher
           = ((Some \<lparr>Length = 3, Selection = None, ColVecs = 1\<rparr>, None),
              ([(Some \<lparr>Length = 2, Selection = None, ColVecs = 2\<rparr>, None),
                (Some \<lparr>Length = 1, Selection = Some [0], ColVecs = 3\<rparr>, None)], []))"
    by (simp add: example_env_def example_fetcher_def)
  from Next_selection_vector [OF a b] Next_selection_vector [OF c d] show ?thesis
    by (simp add: example_operator_def zero_ColBatchScan_def)
qed



text \<open>
  Claim C4. The trailing metadata of \<^verbatim>\<open>DrainMeta\<close> is, in this order: the misplanned ranges
  (only for a flow that is not local, whose node identity is present, and when there are
  any), the final state of the leaf transaction (when there is one), the metrics with the
  bytes read and the rows read at the time of the call, and the trace data (when there is
  any). A step without data adds no item: the steps of the items are strictly increasing
  and none is an empty item. For a local flow no item carries misplanned ranges.
\<close>

theorem DrainMeta_order:
  assumes "DrainMeta env s = Returned ms"
  shows "\<exists>fc bytes. flowCtx s = Some fc \<and> GetBytesRead env s = Returned bytes
      \<and> ms = (if \<not> Local fc \<and> snd (OptionalNodeID fc) then
                 (case MisplannedRanges env (Ctx (InitHelper s)) (SpansCopy (SpansWithCopy s))
                         (fst (OptionalNodeID fc)) of
                    Some ranges \<Rightarrow> [zero_ProducerMetadata\<lparr>Ranges := Some ranges\<rparr>]
                  | None \<Rightarrow> [])
               else [])
            @ (case GetLeafTxnFinalState env (Ctx (InitHelper s)) (Txn fc) of
                 Some tfs \<Rightarrow> [zero_ProducerMetadata\<lparr>LeafTxnFinalState := Some tfs\<rparr>]
               | None \<Rightarrow> [])
            @ [zero_ProducerMetadata
                 \<lparr>Metrics := Some \<lparr>BytesRead = bytes, RowsRead = GetRowsRead s\<rparr>\<rparr>]
            @ (case GetTraceData env (Ctx (InitHelper s)) of
                 Some trace \<Rightarrow> [zero_ProducerMetadata\<lparr>TraceData := Some trace\<rparr>]
               | None \<Rightarrow> [])
      \<and> sorted_wrt (<) (map metaStep ms)
      \<and> (\<forall>m\<in>set ms. metaStep m < 4)
      \<and> (Local fc \<longrightarrow> (\<forall>m\<in>set ms. Ranges m = None))"
proof -
  from assms obtain fc where fc: "flowCtx s = Some fc"
    by (cases "flowCtx s") (simp_all add: DrainMeta_def)
  from assms fc obtain bytes where bytes: "GetBytesRead env s = Returned bytes"
    by (cases "GetBytesRead env s") (simp_all add: DrainMeta_def Let_def)
  obtain nodeID ok where node: "OptionalNodeID fc = (nodeID, ok)"
    by (cases "OptionalNodeID fc")
  let ?ranges = "MisplannedRanges env (Ctx (InitHelper s)) (SpansCopy (SpansWithCopy s)) nodeID"
  let ?tfs = "GetLeafTxnFinalState env (Ctx (InitHelper s)) (Txn fc)"
  let ?trace = "GetTraceData env (Ctx (InitHelper s))"
  have ms: "ms = (if \<not> Local fc \<and> ok then
                 (case ?ranges of
                    Some ranges \<Rightarrow> [zero_ProducerMetadata\<lparr>Ranges := Some ranges\<rparr>]
                  | None \<Rightarrow> [])
               else [])
            @ (case ?tfs of
                 Some tfs \<Rightarrow> [zero_ProducerMetadata\<lparr>LeafTxnFinalState := Some tfs\<rparr>]
               | None \<Rightarrow> [])
            @ [zero_ProducerMetadata
                 \<lparr>Metrics := Some \<lparr>BytesRead = bytes, RowsRead = GetRowsRead s\<rparr>\<rparr>]
            @ (case ?trace of
                 Some trace \<Rightarrow> [zero_ProducerMetadata\<lparr>TraceData := Some trace\<rparr>]
               | None \<Rightarrow> [])"
    using assms
    by (cases "Local fc"; cases ok; cases ?ranges; cases ?tfs; cases ?trace)
       (simp_all add: DrainMeta_def Let_def fc bytes node zero_Metrics_def)
  have order: "sorted_wrt (<) (map metaStep ms) \<and> (\<forall>m\<in>set ms. metaStep m < 4)
      \<and> (Local fc \<longrightarrow> (\<forall>m\<in>set ms. Ranges m = None))"
    unfolding ms
    by (cases "Local fc"; cases ok; cases ?ranges; cases ?tfs; cases ?trace)
       (simp_all add: metaStep_def zero_ProducerMetadata_def)
  have "fst (OptionalNodeID fc) = nodeID" and "snd (OptionalNodeID fc) = ok"
    by (simp_all add: node)
  with fc bytes ms order show ?thesis by blast
qed

theorem DrainMeta_order_witness:
  "DrainMeta draining_env (example_operator\<lparr>rowsRead := 5\<rparr>) = Returned example_trailingMeta
   \<and> map metaStep example_trailingMeta = [0, 1, 2, 3]
   \<and> DrainMeta draining_env
        (example_operator\<lparr>flowCtx := Some (example_flowCtx\<lparr>Local := True\<rparr>), rowsRead := 5\<rparr>)
      = Returned (tl example_trailingMeta)
   \<and> list_all (\<lambda>m. Ranges m = None) (tl example_trailingMeta)"
proof -
  from DrainMeta_order [OF example_drain_local]
  have "\<forall>m\<in>set (tl example_trailingMeta). Ranges m = None"
    by (auto simp: example_operator_def example_flowCtx_def)
  moreover from DrainMeta_order [OF example_drain]
  have "sorted_wrt (<) (map metaStep example_trailingMeta)"
    by blast
  moreover have "map metaStep example_trailingMeta = [0, 1, 2, 3]"
    by (simp add: example_trailingMeta_def metaStep_def zero_ProducerMetadata_def)
  ultimately show ?thesis
    using example_drain example_drain_local by (simp add: list_all_iff)
qed

text \<open>
  Claim C5, as amended. \<^verbatim>\<open>NewColBatchScan\<close> returns an error exactly when the node identity
  is present but zero, or the check flag of the specification is set, or, with the index
  ordinal in range, the hydration of the types of the projection fails or the
  initialization of the row-fetch engine fails. In the first case the error is the one of
  the uninitialized node identity, in the second the assertion failure about the check
  flag; in none of these cases does the function panic.
\<close>

theorem NewColBatchScan_errors:
  "((\<exists>e. NewColBatchScan env fetcher pargs pooled al fc evalCtx spec = Returned (Inl e)) \<longleftrightarrow>
        (fst (OptionalNodeID fc) = 0 \<and> snd (OptionalNodeID fc))
      \<or> IsCheck spec
      \<or> (unat (IndexIdx spec) < length (ActiveIndexes (Table spec))
          \<and> (HydrateTypeSlice env (map (\<lambda>c. Some (GetType c))
                (projection (Table spec) (FindInvertedColumn env (Table spec) (InvertedColumn spec))
                   (Visibility spec) (HasSystemColumns spec))) \<noteq> None
              \<or> (\<exists>tableArgs.
                    populateTableArgs env pargs (Table spec)
                      (ActiveIndexes (Table spec) ! unat (IndexIdx spec))
                      (FindInvertedColumn env (Table spec) (InvertedColumn spec))
                      (Visibility spec) (HasSystemColumns spec) = Returned (tableArgs, None)
                  \<and> fst (cFetcher_Init env (neededColumns spec tableArgs) fetcher) \<noteq> None))))
   \<and> (fst (OptionalNodeID fc) = 0 \<and> snd (OptionalNodeID fc) \<longrightarrow>
        NewColBatchScan env fetcher pargs pooled al fc evalCtx spec =
          Returned (Inl (Errorf ''attempting to create a ColBatchScan with uninitialized NodeID'')))
   \<and> (\<not> (fst (OptionalNodeID fc) = 0 \<and> snd (OptionalNodeID fc)) \<and> IsCheck spec \<longrightarrow>
        NewColBatchScan env fetcher pargs pooled al fc evalCtx spec =
          Returned (Inl (AssertionFailedf
            ''attempting to create a cFetcher with the IsCheck flag set'')))"
proof -
  let ?xs = "projection (Table spec) (FindInvertedColumn env (Table spec) (InvertedColumn spec))
                   (Visibility spec) (HasSystemColumns spec)"
  from populateTableArgs_run [of env pargs "Table spec"
      "ActiveIndexes (Table spec) ! unat (IndexIdx spec)"
      "FindInvertedColumn env (Table spec) (InvertedColumn spec)"
      "Visibility spec" "HasSystemColumns spec"]
  obtain tableArgs where
    pop: "populateTableArgs env pargs (Table spec)
            (ActiveIndexes (Table spec) ! unat (IndexIdx spec))
            (FindInvertedColumn env (Table spec) (InvertedColumn spec))
            (Visibility spec) (HasSystemColumns spec)
          = Returned (tableArgs, HydrateTypeSlice env (map (\<lambda>c. Some (GetType c)) ?xs))"
    by auto
  show ?thesis
    unfolding NewColBatchScan_def neededColumns_def Let_def pop
    by (cases "OptionalNodeID fc";
        cases "HydrateTypeSlice env (map (\<lambda>c. Some (GetType c)) ?xs)")
       (auto split: prod.splits option.splits outcome.splits)
qed

theorem NewColBatchScan_errors_witness:
  "NewColBatchScan example_env example_fetcher zero_cFetcherTableArgs zero_ColBatchScan 0
     example_flowCtx example_evalCtx (example_spec\<lparr>IsCheck := True\<rparr>)
   = Returned (Inl (AssertionFailedf ''attempting to create a cFetcher with the IsCheck flag set''))"
  using NewColBatchScan_errors [of example_env example_fetcher zero_cFetcherTableArgs
      zero_ColBatchScan 0 example_flowCtx example_evalCtx "example_spec\<lparr>IsCheck := True\<rparr>"]
  by (simp add: example_flowCtx_def example_spec_def)

text \<open>
  The claim as it was stated names three cases only. Here the node identity is 3, the
  check flag is not set and the hydration succeeds, and the function still returns an
  error: that of the engine's \<^verbatim>\<open>Init\<close>.
\<close>

theorem NewColBatchScan_errors_counterexample:
  "NewColBatchScan failing_init_env example_fetcher zero_cFetcherTableArgs zero_ColBatchScan 0
     example_flowCtx example_evalCtx example_spec = Returned (Inl (ExternalError ''init''))
   \<and> \<not> (fst (OptionalNodeID example_flowCtx) = 0 \<and> snd (OptionalNodeID example_flowCtx))
   \<and> \<not> IsCheck example_spec
   \<and> HydrateTypeSlice failing_init_env (map (\<lambda>c. Some (GetType c))
        (projection (Table example_spec)
           (FindInvertedColumn failing_init_env (Table example_spec) (InvertedColumn example_spec))
           (Visibility example_spec) (HasSystemColumns example_spec))) = None"
  by (simp add: failing_init_env_def eval_defs example_defs)

text \<open>
  Claim C6. \<^verbatim>\<open>populateTableArgs\<close> always returns, with the error of the hydration of the
  types it has built. The columns of its result are the projection of the specification:
  the readable or the public columns according to the visibility, the column with the
  identity of the inverted column replaced in place by the inverted variant, the system
  columns appended on request. The types are the types of these columns, position by
  position (so the type at the place of the inverted column is the inverted column's),
  and there are as many types as columns.
\<close>

theorem populateTableArgs_projection:
  "\<exists>args. populateTableArgs env pargs table idx invertedCol visibility hasSystemColumns =
       Returned (args, HydrateTypeSlice env
                  (map (\<lambda>c. Some (GetType c))
                     (projection table invertedCol visibility hasSystemColumns)))
     \<and> elems (cols args) = map Some (projection table invertedCol visibility hasSystemColumns)
     \<and> elems (typs args) =
         map (\<lambda>c. Some (GetType c)) (projection table invertedCol visibility hasSystemColumns)
     \<and> len (typs args) = len (cols args)
     \<and> len (cols args) = length (projection table invertedCol visibility hasSystemColumns)
     \<and> desc args = Some table \<and> index args = Some idx
     \<and> isSecondaryIndex args = (\<not> Primary idx) \<and> ValNeededForCol args = {}"
proof -
  let ?xs = "projection table invertedCol visibility hasSystemColumns"
  from populateTableArgs_run obtain cs ts where
    run: "populateTableArgs env pargs table idx invertedCol visibility hasSystemColumns =
       Returned (zero_cFetcherTableArgs
                   \<lparr>desc := Some table, index := Some idx,
                    ColIdxMap := ColumnIDToOrdinalMap env (elems cs),
                    isSecondaryIndex := \<not> Primary idx, cols := cs, typs := ts\<rparr>,
                 HydrateTypeSlice env (elems ts))"
    and wf: "wf_slice cs"
    and columns: "elems cs = map Some ?xs"
    and types: "elems ts = map (\<lambda>c. Some (GetType c)) ?xs"
    and same: "len ts = len cs"
    by blast
  from slice_arr_split [OF wf columns] have "len cs = length ?xs"
    by simp
  with run columns types same show ?thesis
    by (simp add: zero_cFetcherTableArgs_def)
qed

theorem populateTableArgs_projection_witness:
  "(case populateTableArgs example_env zero_cFetcherTableArgs example_table
           \<lparr>IndexID = 2, Primary = False\<rparr> (Some \<lparr>GetID = 2, GetType = 17\<rparr>)
           ScanVisibilityPublic True of
      Returned (args, e) \<Rightarrow>
        e = None
      \<and> elems (cols args) =
          [Some \<lparr>GetID = 1, GetType = 20\<rparr>, Some \<lparr>GetID = 2, GetType = 17\<rparr>,
           Some \<lparr>GetID = 3, GetType = 16\<rparr>, Some \<lparr>GetID = 4294967295, GetType = 1700\<rparr>]
      \<and> elems (typs args) = [Some 20, Some 17, Some 16, Some 1700]
      \<and> isSecondaryIndex args
    | Panicked p \<Rightarrow> False)"
proof -
  from populateTableArgs_projection [of example_env zero_cFetcherTableArgs example_table
      "\<lparr>IndexID = 2, Primary = False\<rparr>" "Some \<lparr>GetID = 2, GetType = 17\<rparr>"
      ScanVisibilityPublic True]
  obtain args e where
    "populateTableArgs example_env zero_cFetcherTableArgs example_table
       \<lparr>IndexID = 2, Primary = False\<rparr> (Some \<lparr>GetID = 2, GetType = 17\<rparr>)
       ScanVisibilityPublic True = Returned (args, e)"
    and "e = None"
    and "elems (cols args) =
          [Some \<lparr>GetID = 1, GetType = 20\<rparr>, Some \<lparr>GetID = 2, GetType = 17\<rparr>,
           Some \<lparr>GetID = 3, GetType = 16\<rparr>, Some \<lparr>GetID = 4294967295, GetType = 1700\<rparr>]"
    and "elems (typs args) = [Some 20, Some 17, Some 16, Some 1700]"
    and "isSecondaryIndex args"
    by (auto simp: projection_def baseColumns_def example_table_def example_columns_def
          example_env_def)
  then show ?thesis by simp
qed

text \<open>
  Claim C7, as amended. \<^verbatim>\<open>ColBatchScan.Release\<close> puts in the pool an operator whose spans
  are what \<^verbatim>\<open>SpansWithCopy.Reset\<close> leaves of the retained spans and whose other fields are
  all zero; so, \<^verbatim>\<open>Reset\<close> leaving no span in the arrays it returns, the operator in the pool
  holds no span key. \<^verbatim>\<open>cFetcherTableArgs.Release\<close> sets every visible cell of the column list to nil
  and truncates the list to length zero with its capacity kept, so that the array holds no
  column at all when its spare cells held none; it zeroes the descriptor, the index and
  the other fields. The type slice is truncated to length zero, and its array is left as it
  was: the type references are not cleared.
\<close>

theorem Release_clears:
  "(Release env s = Returned (p, f') \<longrightarrow>
      p = zero_ColBatchScan\<lparr>SpansWithCopy := Reset env (SpansWithCopy s)\<rparr>
    \<and> (\<exists>f. rf s = Some f \<and> f' = cFetcher_Release env f)
    \<and> ((\<forall>sc. list_all (\<lambda>sp. sp = zero_Span)
                 (arr (SpansWithCopy.Spans (Reset env sc)) @ arr (SpansCopy (Reset env sc))))
         \<longrightarrow> list_all (\<lambda>sp. sp = zero_Span)
               (arr (SpansWithCopy.Spans (SpansWithCopy p)) @ arr (SpansCopy (SpansWithCopy p)))))
   \<and> len (cols (cFetcherTableArgs_Release a)) = 0
   \<and> cap (cols (cFetcherTableArgs_Release a)) = cap (cols a)
   \<and> arr (cols (cFetcherTableArgs_Release a)) =
       replicate (min (len (cols a)) (cap (cols a))) None @ drop (len (cols a)) (arr (cols a))
   \<and> ((\<forall>c\<in>set (drop (len (cols a)) (arr (cols a))). c = None)
        \<longrightarrow> (\<forall>c\<in>set (arr (cols (cFetcherTableArgs_Release a))). c = None))
   \<and> len (typs (cFetcherTableArgs_Release a)) = 0
   \<and> arr (typs (cFetcherTableArgs_Release a)) = arr (typs a)
   \<and> desc (cFetcherTableArgs_Release a) = None
   \<and> index (cFetcherTableArgs_Release a) = None
   \<and> ColIdxMap (cFetcherTableArgs_Release a) = []
   \<and> \<not> isSecondaryIndex (cFetcherTableArgs_Release a)
   \<and> ValNeededForCol (cFetcherTableArgs_Release a) = {}"
proof -
  have op: "Release env s = Returned (p, f') \<longrightarrow>
      p = zero_ColBatchScan\<lparr>SpansWithCopy := Reset env (SpansWithCopy s)\<rparr>
    \<and> (\<exists>f. rf s = Some f \<and> f' = cFetcher_Release env f)
    \<and> ((\<forall>sc. list_all (\<lambda>sp. sp = zero_Span)
                 (arr (SpansWithCopy.Spans (Reset env sc)) @ arr (SpansCopy (Reset env sc))))
         \<longrightarrow> list_all (\<lambda>sp. sp = zero_Span)
               (arr (SpansWithCopy.Spans (SpansWithCopy p)) @ arr (SpansCopy (SpansWithCopy p))))"
    by (cases "rf s") (auto simp: Release_def Let_def)
  have cs: "cols (cFetcherTableArgs_Release a) =
      \<lparr>arr = replicate (min (len (cols a)) (cap (cols a))) None @ drop (len (cols a)) (arr (cols a)),
       len = 0\<rparr>"
    by (simp add: cFetcherTableArgs_Release_def Let_def reslice_def clear_cells cap_def)
  have ts: "typs (cFetcherTableArgs_Release a) = (typs a)\<lparr>len := 0\<rparr>"
    by (simp add: cFetcherTableArgs_Release_def Let_def reslice_def)
  have rest: "desc (cFetcherTableArgs_Release a) = None
   \<and> index (cFetcherTableArgs_Release a) = None
   \<and> ColIdxMap (cFetcherTableArgs_Release a) = []
   \<and> \<not> isSecondaryIndex (cFetcherTableArgs_Release a)
   \<and> ValNeededForCol (cFetcherTableArgs_Release a) = {}"
    by (simp add: cFetcherTableArgs_Release_def Let_def zero_cFetcherTableArgs_def)
  have capc: "cap (cols (cFetcherTableArgs_Release a)) = cap (cols a)"
    by (simp add: cs cap_def)
  from op rest capc show ?thesis
    unfolding cs ts by auto
qed

theorem Release_clears_witness:
  "Release example_env example_operator = Returned (zero_ColBatchScan, ([], []))
   \<and> arr (cols (cFetcherTableArgs_Release example_tableArgs)) = [None, None, None]
   \<and> desc (cFetcherTableArgs_Release example_tableArgs) = None"
proof -
  obtain p f' where run: "Release example_env example_operator = Returned (p, f')"
    by (simp add: Release_def example_operator_def Let_def)
  from Release_clears [of example_env example_operator p f' example_tableArgs] run
  show ?thesis
    by (simp add: example_env_def example_operator_def example_fetcher_def example_tableArgs_def
          zero_ColBatchScan_def cap_def)
qed

text \<open>
  The claim as it was stated has the types cleared with the rest. After the release of the
  example object the columns are gone from their array, and the types are still in theirs.
\<close>

theorem Release_clears_counterexample:
  "arr (typs (cFetcherTableArgs_Release example_tableArgs)) = [Some 20, Some 25]
   \<and> arr (cols (cFetcherTableArgs_Release example_tableArgs)) = [None, None, None]"
  by (simp add: cFetcherTableArgs_Release_def example_tableArgs_def Let_def reslice_def
        zero_cFetcherTableArgs_def clear_cells)



text \<open>
  Claim C9. A call of \<^verbatim>\<open>Init\<close> on an operator on which \<^verbatim>\<open>Init\<close> has returned changes
  nothing: neither the engine is started again nor a tracing span opened. The first call
  opens the span and starts the engine once, with \<open>limitBatches\<close> the negation of the
  parallelize flag, and it returns only when \<^verbatim>\<open>StartScan\<close> reports no error.
\<close>

theorem Init_idempotent:
  assumes "Init env c s = Returned s1"
  shows "Init env c' s1 = Returned s1
       \<and> (Ctx (InitHelper s) \<noteq> None \<longrightarrow> s1 = s)
       \<and> (Ctx (InitHelper s) = None \<longrightarrow>
            (\<exists>fc f f'. flowCtx s = Some fc \<and> rf s = Some f
               \<and> StartScan env
                    \<lparr>scan_ctx = Some (fst (ProcessorSpan env (Some c) ''colbatchscan'')),
                     scan_txn = Txn fc,
                     scan_spans = SpansWithCopy.Spans (SpansWithCopy s),
                     scan_bsHeader = bsHeader s, limitBatches = (\<not> parallelize s),
                     scan_batchBytesLimit = batchBytesLimit s, scan_limitHint = limitHint s,
                     forceProductionBatchSizes = ForceProductionBatchSizes fc\<rparr> f = (None, f')
               \<and> s1 = s\<lparr>InitHelper := (InitHelper s)
                                  \<lparr>Ctx := Some (fst (ProcessorSpan env (Some c) ''colbatchscan''))\<rparr>,
                         tracingSpan := snd (ProcessorSpan env (Some c) ''colbatchscan''),
                         rf := Some f'\<rparr>))"
proof (cases "Ctx (InitHelper s)")
  case (Some c0)
  with assms have "s1 = s"
    by (simp add: Init_def InitHelper_Init_def)
  with Some show ?thesis
    by (simp add: Init_def InitHelper_Init_def)
next
  case None
  obtain c1 sp where ps: "ProcessorSpan env (Some c) ''colbatchscan'' = (c1, sp)"
    by (cases "ProcessorSpan env (Some c) ''colbatchscan''")
  from assms None ps obtain fc where fc: "flowCtx s = Some fc"
    by (cases "flowCtx s") (simp_all add: Init_def InitHelper_Init_def Let_def)
  from assms None ps fc obtain f where f: "rf s = Some f"
    by (cases "rf s") (simp_all add: Init_def InitHelper_Init_def Let_def)
  let ?args = "\<lparr>scan_ctx = Some c1, scan_txn = Txn fc,
                 scan_spans = SpansWithCopy.Spans (SpansWithCopy s),
                 scan_bsHeader = bsHeader s, limitBatches = (\<not> parallelize s),
                 scan_batchBytesLimit = batchBytesLimit s, scan_limitHint = limitHint s,
                 forceProductionBatchSizes = ForceProductionBatchSizes fc\<rparr>"
  obtain err f' where st: "StartScan env ?args f = (err, f')"
    by (cases "StartScan env ?args f")
  from assms None ps fc f st have err: "err = None"
    by (cases err) (simp_all add: Init_def InitHelper_Init_def Let_def)
  from assms None ps fc f st err have s1:
    "s1 = s\<lparr>InitHelper := (InitHelper s)\<lparr>Ctx := Some c1\<rparr>, tracingSpan := sp, rf := Some f'\<rparr>"
    by (simp add: Init_def InitHelper_Init_def Let_def)
  have again: "Init env c' s1 = Returned s1"
    by (simp add: s1 Init_def InitHelper_Init_def)
  from None fc f st err s1 again ps show ?thesis
    by simp
qed

theorem Init_idempotent_witness:
  "(case Init example_env 8 example_operator of
      Returned s1 \<Rightarrow>
        Init example_env 9 s1 = Returned s1
      \<and> map limitBatches (case rf s1 of Some (rs, started) \<Rightarrow> started | None \<Rightarrow> []) = [True]
      \<and> Ctx (InitHelper s1) = Some 1
    | Panicked p \<Rightarrow> False)"
proof -
  obtain s1 where run: "Init example_env 8 example_operator = Returned s1"
    by (simp add: Init_def InitHelper_Init_def example_operator_def example_env_def
          example_fetcher_def zero_ColBatchScan_def Let_def)
  from Init_idempotent [OF run, of 9] show ?thesis
    unfolding run
    by (auto simp: example_operator_def example_env_def example_fetcher_def
          zero_ColBatchScan_def)
qed

text \<open>
  Claim C10. Without a bounded-staleness read the operator carries no staleness header.
  With one, the minimum timestamp bound of the header is the requested timestamp, or the
  modification time of the table descriptor when the requested timestamp is less than it;
  so, the order of timestamps being irreflexive, the bound is never less than the
  modification time. The strictness and the maximum bound are those of the request.
\<close>

theorem NewColBatchScan_bounded_staleness:
  assumes "NewColBatchScan env fetcher pargs pooled al fc evalCtx spec = Returned (Inr (s, al', spec'))"
  shows "(AsOfSystemTime evalCtx = None \<longrightarrow> bsHeader s = None)
       \<and> (\<forall>aost. AsOfSystemTime evalCtx = Some aost \<longrightarrow>
            (\<not> BoundedStaleness aost \<longrightarrow> bsHeader s = None)
          \<and> (BoundedStaleness aost \<longrightarrow>
               (\<exists>h. bsHeader s = Some h
                  \<and> (Less env (Timestamp aost) (GetModificationTime (Table spec))
                       \<longrightarrow> MinTimestampBound h = GetModificationTime (Table spec))
                  \<and> (\<not> Less env (Timestamp aost) (GetModificationTime (Table spec))
                       \<longrightarrow> MinTimestampBound h = Timestamp aost)
                  \<and> ((\<forall>t. \<not> Less env t t)
                       \<longrightarrow> \<not> Less env (MinTimestampBound h) (GetModificationTime (Table spec)))
                  \<and> MinTimestampBoundStrict h = NearestOnly aost
                  \<and> MaxTimestampBound h = AsOfSystemTime.MaxTimestampBound aost)))"
proof -
  from NewColBatchScan_Inr [OF assms] have
    "bsHeader s = boundedStalenessHeader env evalCtx (Table spec)"
    by auto
  then show ?thesis
    by (auto simp: boundedStalenessHeader_def Let_def)
qed

theorem NewColBatchScan_bounded_staleness_witness:
  "(case NewColBatchScan example_env example_fetcher zero_cFetcherTableArgs zero_ColBatchScan 0
           example_flowCtx example_evalCtx example_spec of
      Returned (Inr (s, al', spec')) \<Rightarrow>
        bsHeader s = Some \<lparr>MinTimestampBound = 50, MinTimestampBoundStrict = False,
                           MaxTimestampBound = 0\<rparr>
    | Returned (Inl e) \<Rightarrow> False
    | Panicked p \<Rightarrow> False)"
proof -
  from example_new obtain s al' spec' where
    new: "NewColBatchScan example_env example_fetcher zero_cFetcherTableArgs zero_ColBatchScan 0
         example_flowCtx example_evalCtx example_spec = Returned (Inr (s, al', spec'))"
    by blast
  from NewColBatchScan_bounded_staleness [OF new] show ?thesis
    unfolding new
    by (auto simp: example_spec_def example_env_def example_evalCtx_def example_table_def)
qed

end
